theory Spec2Isabelle
  imports Complex_Main "HOL-Library.Sublist"
begin

section \<open>The source language: numbers, errors, strings\<close>

text \<open>
  The program (\<^verbatim>\<open>lccp_app.py\<close>) computes with Python floats, ints, bools and strs.
  \<^item> A Python \<^verbatim>\<open>float\<close> is modelled as a \<^typ>\<open>real\<close>: rounding, overflow to infinity
    and NaN of binary64 arithmetic are abstracted away, and so is the range check of
    the conversion of an int to a float. Comparisons and the branch structure are kept
    as they are written.
  \<^item> A Python \<^verbatim>\<open>int\<close> is an \<^typ>\<open>int\<close>; where the source mixes an int with a float
    the int is converted (\<^term>\<open>real_of_int\<close>), as Python does.
  \<^item> The true division \<^verbatim>\<open>/\<close> raises \<^verbatim>\<open>ZeroDivisionError\<close> on a zero divisor, so a
    function that divides returns \<open>py_error + real\<close>, with \<open>Inl\<close> for the exception.
  \<^item> A Python \<^verbatim>\<open>str\<close> is a \<^typ>\<open>string\<close> whose characters are read as the code
    points 0 to 255. On that range \<^verbatim>\<open>strip\<close> removes the twelve whitespace code
    points 9 to 13, 28 to 32, 133 and 160; \<^verbatim>\<open>lower\<close> maps A to Z and the code points
    192 to 222 other than 215 to the code point 32 above; \<^verbatim>\<open>upper\<close> maps a to z and
    the code points 224 to 254 other than 247 to the code point 32 below, and code point
    223 to the two characters "SS". The upper-case forms of the code points 181 and 255
    (code points 924 and 376) have no 8-bit character; \<open>char_upper\<close> leaves these two in
    place, which changes no comparison with "2L" or "3", since neither form occurs in
    those strings.
\<close>

datatype py_error = ZeroDivisionError | OverflowError

definition truediv :: "real \<Rightarrow> real \<Rightarrow> py_error + real" where
  "truediv a b = (if b = 0 then Inl ZeroDivisionError else Inr (a / b))"

definition isspace :: "char \<Rightarrow> bool" where
  "isspace c = (let n = (of_char c :: nat)
                in (9 \<le> n \<and> n \<le> 13) \<or> (28 \<le> n \<and> n \<le> 32) \<or> n = 133 \<or> n = 160)"

definition char_lower :: "char \<Rightarrow> char" where
  "char_lower c = (let n = (of_char c :: nat)
                   in if (65 \<le> n \<and> n \<le> 90) \<or> (192 \<le> n \<and> n \<le> 222 \<and> n \<noteq> 215)
                      then char_of (n + 32) else c)"

definition char_upper :: "char \<Rightarrow> string" where
  "char_upper c = (let n = (of_char c :: nat)
                   in if (97 \<le> n \<and> n \<le> 122) \<or> (224 \<le> n \<and> n \<le> 254 \<and> n \<noteq> 247)
                      then [char_of (n - 32)]
                      else if n = 223 then ''SS'' else [c])"

definition str_lower :: "string \<Rightarrow> string" where
  "str_lower s = map char_lower s"

definition str_upper :: "string \<Rightarrow> string" where
  "str_upper s = concat (map char_upper s)"

definition str_strip :: "string \<Rightarrow> string" where
  "str_strip s = rev (dropWhile isspace (rev (dropWhile isspace s)))"

text \<open>\<^verbatim>\<open>s.startswith(p)\<close> is \<^term>\<open>prefix p s\<close>; \<^verbatim>\<open>p in s\<close> on strs is the search for
  a contiguous occurrence of \<open>p\<close> in \<open>s\<close>, tried at every position from the left.\<close>

definition startswith :: "string \<Rightarrow> string \<Rightarrow> bool" where
  "startswith s p = prefix p s"

fun str_contains :: "string \<Rightarrow> string \<Rightarrow> bool" where
  "str_contains p [] = (p = [])"
| "str_contains p (c # cs) = (prefix p (c # cs) \<or> str_contains p cs)"

section \<open>Constants and data classes\<close>

definition DEFAULT_COOLING_HOURS :: int where
  "DEFAULT_COOLING_HOURS = 1000"

definition DEFAULT_HEATING_HOURS :: int where
  "DEFAULT_HEATING_HOURS = 600"

record SystemInputs =
  capacity_btuh :: real
  seer2 :: real
  hspf2 :: real
  refrigerant_charge_kg :: real
  reclaimed_refrigerant_pct :: real
  annual_leak_rate_pct :: real
  eol_loss_pct :: real
  material_weight_kg :: real

record DirectCFInputs =
  reclaimed_per_unit_pct :: real
  unit_volume_cuft :: real
  manufactured_in_usa :: bool
  leak_detectors :: bool
  refrigerant_safety_class :: string

record IndirectCFInputs =
  compressor_type :: string
  demand_flex :: bool
  connected_thermostat :: bool

section \<open>Core calculations\<close>

text \<open>
  The local variables of \<^verbatim>\<open>calc_baseline_direct\<close>, as they stand when the function
  reaches its \<^verbatim>\<open>return\<close> (lines 54 to 72 of the source). The function itself returns
  the sum of the last three terms (line 74). \<open>py_bind\<close> sequences two steps of which
  the first may raise.
\<close>

record direct_locals =
  charge :: real
  annual_leak_frac :: real
  eol_loss_frac :: real
  annual_leak_kg :: real
  total_leak_kg :: real
  remaining_kg :: real
  eol_leak_kg :: real
  refrigerant_emissions :: real
  reclaimed_frac :: real
  reclaimed_credit :: real
  embodied :: real

definition py_bind :: "py_error + 'a \<Rightarrow> ('a \<Rightarrow> py_error + 'b) \<Rightarrow> py_error + 'b" where
  "py_bind r f = (case r of Inl e \<Rightarrow> Inl e | Inr v \<Rightarrow> f v)"

definition calc_baseline_direct_locals ::
  "SystemInputs \<Rightarrow> real \<Rightarrow> int \<Rightarrow> real \<Rightarrow> py_error + direct_locals" where
  "calc_baseline_direct_locals system refrigerant_gwp lifetime_years embodied_factor =
    (let charge = refrigerant_charge_kg system in
     py_bind (truediv (annual_leak_rate_pct system) 100.0) (\<lambda>annual_leak_frac.
     py_bind (truediv (eol_loss_pct system) 100.0) (\<lambda>eol_loss_frac.
     let annual_leak_kg = charge * annual_leak_frac;
         total_leak_kg = annual_leak_kg * real_of_int lifetime_years;
         remaining_kg = max (charge - total_leak_kg) 0;
         eol_leak_kg = remaining_kg * eol_loss_frac;
         refrigerant_emissions = (total_leak_kg + eol_leak_kg) * refrigerant_gwp
     in
     py_bind (truediv (reclaimed_refrigerant_pct system) 100.0) (\<lambda>reclaimed_frac.
     let reclaimed_credit = charge * reclaimed_frac * refrigerant_gwp * (- 0.5);
         embodied = material_weight_kg system * embodied_factor
     in Inr \<lparr>charge = charge, annual_leak_frac = annual_leak_frac,
              eol_loss_frac = eol_loss_frac, annual_leak_kg = annual_leak_kg,
              total_leak_kg = total_leak_kg, remaining_kg = remaining_kg,
              eol_leak_kg = eol_leak_kg, refrigerant_emissions = refrigerant_emissions,
              reclaimed_frac = reclaimed_frac, reclaimed_credit = reclaimed_credit,
              embodied = embodied\<rparr>))))"

definition calc_baseline_direct ::
  "SystemInputs \<Rightarrow> real \<Rightarrow> int \<Rightarrow> real \<Rightarrow> py_error + real" where
  "calc_baseline_direct system refrigerant_gwp lifetime_years embodied_factor =
    py_bind (calc_baseline_direct_locals system refrigerant_gwp lifetime_years embodied_factor)
      (\<lambda>l. Inr (refrigerant_emissions l + reclaimed_credit l + embodied l))"

definition calc_baseline_indirect :: "SystemInputs \<Rightarrow> int \<Rightarrow> real \<Rightarrow> py_error + real" where
  "calc_baseline_indirect system lifetime_years grid_factor =
    (let cap = capacity_btuh system in
     py_bind (truediv (cap * real_of_int DEFAULT_COOLING_HOURS) (seer2 system * 1000.0))
       (\<lambda>cooling_kwh.
     py_bind (truediv (cap * real_of_int DEFAULT_HEATING_HOURS) (hspf2 system * 1000.0))
       (\<lambda>heating_kwh.
     let annual_kwh = cooling_kwh + heating_kwh;
         annual_kgco2 = annual_kwh * grid_factor
     in Inr (annual_kgco2 * real_of_int lifetime_years))))"

section \<open>Correction factors\<close>

text \<open>
  Both builders update the accumulator \<^verbatim>\<open>cf_val\<close> in a sequence of \<^verbatim>\<open>if\<close>/\<^verbatim>\<open>elif\<close>
  statements. Each statement is one binding of the \<open>let\<close> chain; \<open>v0\<close>, \<open>v1\<close>, ... are
  the successive values of \<^verbatim>\<open>cf_val\<close>.
\<close>

definition build_direct_cf :: "DirectCFInputs \<Rightarrow> real" where
  "build_direct_cf cf =
    (let v0 = 1.0;
         v1 = (if reclaimed_per_unit_pct cf \<ge> 50 then v0 * 0.9
               else if reclaimed_per_unit_pct cf \<ge> 20 then v0 * 0.95
               else v0);
         v2 = (if unit_volume_cuft cf \<le> 6 then v1 * 0.97
               else if unit_volume_cuft cf \<le> 10 then v1 * 0.99
               else v1);
         v3 = (if manufactured_in_usa cf then v2 * 0.98 else v2);
         v4 = (if leak_detectors cf then v3 * 0.95 else v3);
         safety = str_upper (str_strip (refrigerant_safety_class cf));
         v5 = (if safety = ''2L'' then v4 * 0.995
               else if safety = ''3'' then v4 * 1.01
               else v4)
     in v5)"

definition build_indirect_cf :: "IndirectCFInputs \<Rightarrow> real" where
  "build_indirect_cf cf =
    (let v0 = 1.0;
         ctype = str_strip (str_lower (compressor_type cf));
         v1 = (if startswith ctype ''1'' then v0 * 1.00
               else if str_contains ''2'' ctype then v0 * 0.95
               else if str_contains ''var'' ctype then v0 * 0.90
               else v0);
         v2 = (if demand_flex cf then v1 * 0.97 else v1);
         v3 = (if connected_thermostat cf then v2 * 0.98 else v2)
     in v3)"

section \<open>The four functions, statement by statement\<close>

text \<open>
  A second reading of the same source keeps every statement as a step that either
  returns or raises, so that "does not raise" is a property to be proved and not a
  matter of the result type. A statement made of float arithmetic, comparisons and str
  methods returns (\<open>py_ok\<close>); a true division raises \<^verbatim>\<open>ZeroDivisionError\<close> on a zero
  divisor (\<open>truediv\<close>); a product of a float and an int first converts the int, and the
  conversion raises \<^verbatim>\<open>OverflowError\<close> when the int rounds to a magnitude of
  \<open>2 ^ 1024\<close> or more, that is from \<open>2 ^ 1024 - 2 ^ 970\<close> on (\<open>float_of_int\<close>). Values
  are still real numbers, as above.
\<close>

definition py_ok :: "'a \<Rightarrow> py_error + 'a" where
  "py_ok v = Inr v"

definition float_of_int :: "int \<Rightarrow> py_error + real" where
  "float_of_int n = (if \<bar>n\<bar> < 2 ^ 1024 - 2 ^ 970 then Inr (real_of_int n) else Inl OverflowError)"

definition float_mul_int :: "real \<Rightarrow> int \<Rightarrow> py_error + real" where
  "float_mul_int a n = py_bind (float_of_int n) (\<lambda>b. py_ok (a * b))"

definition calc_baseline_direct_py ::
  "SystemInputs \<Rightarrow> real \<Rightarrow> int \<Rightarrow> real \<Rightarrow> py_error + real" where
  "calc_baseline_direct_py system refrigerant_gwp lifetime_years embodied_factor =
     py_bind (py_ok (refrigerant_charge_kg system)) (\<lambda>charge.
     py_bind (truediv (annual_leak_rate_pct system) 100.0) (\<lambda>annual_leak_frac.
     py_bind (truediv (eol_loss_pct system) 100.0) (\<lambda>eol_loss_frac.
     py_bind (py_ok (charge * annual_leak_frac)) (\<lambda>annual_leak_kg.
     py_bind (float_mul_int annual_leak_kg lifetime_years) (\<lambda>total_leak_kg.
     py_bind (py_ok (max (charge - total_leak_kg) 0)) (\<lambda>remaining_kg.
     py_bind (py_ok (remaining_kg * eol_loss_frac)) (\<lambda>eol_leak_kg.
     py_bind (py_ok ((total_leak_kg + eol_leak_kg) * refrigerant_gwp)) (\<lambda>refrigerant_emissions.
     py_bind (truediv (reclaimed_refrigerant_pct system) 100.0) (\<lambda>reclaimed_frac.
     py_bind (py_ok (charge * reclaimed_frac * refrigerant_gwp * (- 0.5))) (\<lambda>reclaimed_credit.
     py_bind (py_ok (material_weight_kg system * embodied_factor)) (\<lambda>embodied.
     py_ok (refrigerant_emissions + reclaimed_credit + embodied))))))))))))"

definition calc_baseline_indirect_py :: "SystemInputs \<Rightarrow> int \<Rightarrow> real \<Rightarrow> py_error + real" where
  "calc_baseline_indirect_py system lifetime_years grid_factor =
     py_bind (py_ok (capacity_btuh system)) (\<lambda>cap.
     py_bind (float_mul_int cap DEFAULT_COOLING_HOURS) (\<lambda>cooling_btu.
     py_bind (truediv cooling_btu (seer2 system * 1000.0)) (\<lambda>cooling_kwh.
     py_bind (float_mul_int cap DEFAULT_HEATING_HOURS) (\<lambda>heating_btu.
     py_bind (truediv heating_btu (hspf2 system * 1000.0)) (\<lambda>heating_kwh.
     py_bind (py_ok (cooling_kwh + heating_kwh)) (\<lambda>annual_kwh.
     py_bind (py_ok (annual_kwh * grid_factor)) (\<lambda>annual_kgco2.
     float_mul_int annual_kgco2 lifetime_years)))))))"

definition build_direct_cf_py :: "DirectCFInputs \<Rightarrow> py_error + real" where
  "build_direct_cf_py cf =
     py_bind (py_ok 1.0) (\<lambda>v0.
     py_bind (if reclaimed_per_unit_pct cf \<ge> 50 then py_ok (v0 * 0.9)
              else if reclaimed_per_unit_pct cf \<ge> 20 then py_ok (v0 * 0.95)
              else py_ok v0) (\<lambda>v1.
     py_bind (if unit_volume_cuft cf \<le> 6 then py_ok (v1 * 0.97)
              else if unit_volume_cuft cf \<le> 10 then py_ok (v1 * 0.99)
              else py_ok v1) (\<lambda>v2.
     py_bind (if manufactured_in_usa cf then py_ok (v2 * 0.98) else py_ok v2) (\<lambda>v3.
     py_bind (if leak_detectors cf then py_ok (v3 * 0.95) else py_ok v3) (\<lambda>v4.
     py_bind (py_ok (str_upper (str_strip (refrigerant_safety_class cf)))) (\<lambda>safety.
     py_bind (if safety = ''2L'' then py_ok (v4 * 0.995)
              else if safety = ''3'' then py_ok (v4 * 1.01)
              else py_ok v4) (\<lambda>v5.
     py_ok v5)))))))"

definition build_indirect_cf_py :: "IndirectCFInputs \<Rightarrow> py_error + real" where
  "build_indirect_cf_py cf =
     py_bind (py_ok 1.0) (\<lambda>v0.
     py_bind (py_ok (str_strip (str_lower (compressor_type cf)))) (\<lambda>ctype.
     py_bind (if startswith ctype ''1'' then py_ok (v0 * 1.00)
              else if str_contains ''2'' ctype then py_ok (v0 * 0.95)
              else if str_contains ''var'' ctype then py_ok (v0 * 0.90)
              else py_ok v0) (\<lambda>v1.
     py_bind (if demand_flex cf then py_ok (v1 * 0.97) else py_ok v1) (\<lambda>v2.
     py_bind (if connected_thermostat cf then py_ok (v2 * 0.98) else py_ok v2) (\<lambda>v3.
     py_ok v3)))))"

section \<open>Basic facts about the model\<close>

text \<open>A division by the literal \<^verbatim>\<open>100.0\<close> never raises, and a step that returned passes
  its value on.\<close>

lemma truediv_100: "truediv a 100.0 = Inr (a / 100)"
  by (simp add: truediv_def)

lemma py_bind_Inr: "py_bind (Inr v) f = f v"
  by (simp add: py_bind_def)

lemma py_bind_Inl: "py_bind (Inl e) f = Inl e"
  by (simp add: py_bind_def)

text \<open>The local variables of \<^verbatim>\<open>calc_baseline_direct\<close> in closed form: the function
  always reaches its \<^verbatim>\<open>return\<close>.\<close>

lemma calc_baseline_direct_locals_eq:
  "calc_baseline_direct_locals system refrigerant_gwp lifetime_years embodied_factor =
     Inr \<lparr>charge = refrigerant_charge_kg system,
          annual_leak_frac = annual_leak_rate_pct system / 100,
          eol_loss_frac = eol_loss_pct system / 100,
          annual_leak_kg = refrigerant_charge_kg system * (annual_leak_rate_pct system / 100),
          total_leak_kg = refrigerant_charge_kg system * (annual_leak_rate_pct system / 100)
                            * real_of_int lifetime_years,
          remaining_kg = max (refrigerant_charge_kg system
                            - refrigerant_charge_kg system * (annual_leak_rate_pct system / 100)
                                * real_of_int lifetime_years) 0,
          eol_leak_kg = max (refrigerant_charge_kg system
                            - refrigerant_charge_kg system * (annual_leak_rate_pct system / 100)
                                * real_of_int lifetime_years) 0 * (eol_loss_pct system / 100),
          refrigerant_emissions =
             (refrigerant_charge_kg system * (annual_leak_rate_pct system / 100)
                * real_of_int lifetime_years
              + max (refrigerant_charge_kg system
                       - refrigerant_charge_kg system * (annual_leak_rate_pct system / 100)
                           * real_of_int lifetime_years) 0 * (eol_loss_pct system / 100))
             * refrigerant_gwp,
          reclaimed_frac = reclaimed_refrigerant_pct system / 100,
          reclaimed_credit = refrigerant_charge_kg system * (reclaimed_refrigerant_pct system / 100)
                               * refrigerant_gwp * (- 0.5),
          embodied = material_weight_kg system * embodied_factor\<rparr>"
  unfolding calc_baseline_direct_locals_def Let_def truediv_100 py_bind_Inr
  by (rule refl)

text \<open>The indirect baseline divides by \<^verbatim>\<open>seer2 * 1000.0\<close> and by
  \<^verbatim>\<open>hspf2 * 1000.0\<close>: it returns when both ratings are non-zero and raises otherwise.\<close>

lemma calc_baseline_indirect_eq:
  assumes "seer2 system \<noteq> 0" and "hspf2 system \<noteq> 0"
  shows "calc_baseline_indirect system lifetime_years grid_factor =
     Inr ((capacity_btuh system * 1000 / (seer2 system * 1000)
           + capacity_btuh system * 600 / (hspf2 system * 1000))
          * grid_factor * real_of_int lifetime_years)"
  using assms
  by (simp add: calc_baseline_indirect_def truediv_def py_bind_Inr Let_def
      DEFAULT_COOLING_HOURS_def DEFAULT_HEATING_HOURS_def)

lemma calc_baseline_indirect_zero:
  assumes "seer2 system = 0 \<or> hspf2 system = 0"
  shows "calc_baseline_indirect system lifetime_years grid_factor = Inl ZeroDivisionError"
  using assms
  by (auto simp add: calc_baseline_indirect_def truediv_def py_bind_def Let_def)

text \<open>The substring test finds exactly the contiguous occurrences; for a pattern of one
  character it is membership.\<close>

lemma str_contains_sublist: "str_contains p s \<longleftrightarrow> sublist p s"
  by (induction s) (simp_all add: sublist_Cons_right)

lemma str_contains_single: "str_contains [c] s \<longleftrightarrow> c \<in> set s"
  by (induction s) auto

lemma sublist_single: "sublist [c::char] s \<longleftrightarrow> c \<in> set s"
  using str_contains_single [of c s] by (simp add: str_contains_sublist)

lemma str_normalise_empty: "str_strip (str_lower []) = []"
  by (simp add: str_strip_def str_lower_def)

lemma str_normalise_class_1: "str_upper (str_strip ''1'') = ''1''"
  by code_simp

text \<open>Trimming and case: \<open>str_strip\<close> returns the part of a string between its leading and
  trailing whitespace, and lower-casing neither makes nor removes whitespace.\<close>

lemma isspace_char_lower: "isspace (char_lower c) \<longleftrightarrow> isspace c"
  by (auto simp add: isspace_def char_lower_def Let_def)

lemma dropWhile_all: "\<forall>c\<in>set ws. P c \<Longrightarrow> dropWhile P (ws @ xs) = dropWhile P xs"
  by (induction ws) auto

lemma str_strip_decompose:
  assumes "\<forall>c\<in>set ws1. isspace c" and "\<forall>c\<in>set ws2. isspace c"
    and "t = [] \<or> (\<not> isspace (hd t) \<and> \<not> isspace (last t))"
  shows "str_strip (ws1 @ t @ ws2) = t"
proof (cases "t = []")
  case True
  have e: "dropWhile isspace (ws1 @ [] @ ws2) = []"
    using assms(1,2) by (auto simp add: dropWhile_eq_Nil_conv)
  show ?thesis unfolding True str_strip_def e by simp
next
  case False
  with assms(3) have h: "\<not> isspace (hd t)" and l: "\<not> isspace (last t)" by auto
  have "dropWhile isspace (ws1 @ t @ ws2) = dropWhile isspace (t @ ws2)"
    using assms(1) by (simp add: dropWhile_all)
  also have "\<dots> = t @ ws2"
    using False h by (cases t) auto
  finally have d: "dropWhile isspace (ws1 @ t @ ws2) = t @ ws2" .
  have "dropWhile isspace (rev ws2 @ rev t) = dropWhile isspace (rev t)"
    using assms(2) by (simp add: dropWhile_all)
  also have "\<dots> = rev t"
    using False l by (cases "rev t") (auto simp add: last_rev hd_rev dest: arg_cong [where f = hd])
  finally show ?thesis by (simp add: str_strip_def d)
qed

lemma str_lower_append: "str_lower (a @ b) = str_lower a @ str_lower b"
  by (simp add: str_lower_def)

lemma str_strip_lower_decompose:
  assumes "\<forall>c\<in>set ws1. isspace c" and "\<forall>c\<in>set ws2. isspace c"
    and "t = [] \<or> (\<not> isspace (hd t) \<and> \<not> isspace (last t))"
  shows "str_strip (str_lower (ws1 @ t @ ws2)) = str_lower t"
proof -
  have 1: "\<forall>c\<in>set (str_lower ws1). isspace c"
    using assms(1) by (auto simp add: str_lower_def isspace_char_lower)
  have 2: "\<forall>c\<in>set (str_lower ws2). isspace c"
    using assms(2) by (auto simp add: str_lower_def isspace_char_lower)
  have 3: "str_lower t = [] \<or> (\<not> isspace (hd (str_lower t)) \<and> \<not> isspace (last (str_lower t)))"
    using assms(3) by (cases "t = []") (auto simp add: str_lower_def isspace_char_lower hd_map last_map)
  show ?thesis
    using str_strip_decompose [OF 1 2 3] by (simp add: str_lower_append)
qed

text \<open>The statement-by-statement reading agrees with the first one wherever the int
  converts, and raises \<^verbatim>\<open>OverflowError\<close> where it does not.\<close>

lemma py_bind_ok: "py_bind (py_ok v) f = f v"
  by (simp add: py_bind_def py_ok_def)

lemma py_bind_if: "py_bind (if b then x else y) f = (if b then py_bind x f else py_bind y f)"
  by simp

lemma float_of_int_small: "\<bar>n\<bar> < 2 ^ 1024 - 2 ^ 970 \<Longrightarrow> float_of_int n = Inr (real_of_int n)"
  by (simp add: float_of_int_def)

lemma float_of_int_large: "\<not> \<bar>n\<bar> < 2 ^ 1024 - 2 ^ 970 \<Longrightarrow> float_of_int n = Inl OverflowError"
  by (simp add: float_of_int_def)

lemma float_of_int_hours:
  "float_of_int DEFAULT_COOLING_HOURS = Inr 1000" "float_of_int DEFAULT_HEATING_HOURS = Inr 600"
  by (simp_all add: float_of_int_def DEFAULT_COOLING_HOURS_def DEFAULT_HEATING_HOURS_def)

lemmas py_steps = py_ok_def py_bind_Inr py_bind_Inl py_bind_if truediv_def

lemma build_direct_cf_py_eq: "build_direct_cf_py cf = Inr (build_direct_cf cf)"
  by (simp add: build_direct_cf_py_def build_direct_cf_def py_steps Let_def)

lemma build_indirect_cf_py_eq: "build_indirect_cf_py cf = Inr (build_indirect_cf cf)"
  by (simp add: build_indirect_cf_py_def build_indirect_cf_def py_steps Let_def)

lemma calc_baseline_direct_py_in_range:
  assumes "\<bar>lifetime_years\<bar> < 2 ^ 1024 - 2 ^ 970"
  shows "calc_baseline_direct_py system refrigerant_gwp lifetime_years embodied_factor
           = calc_baseline_direct system refrigerant_gwp lifetime_years embodied_factor"
  by (simp add: calc_baseline_direct_py_def calc_baseline_direct_def
      calc_baseline_direct_locals_eq float_mul_int_def float_of_int_small [OF assms] py_steps)

lemma calc_baseline_direct_py_overflow:
  assumes "\<not> \<bar>lifetime_years\<bar> < 2 ^ 1024 - 2 ^ 970"
  shows "calc_baseline_direct_py system refrigerant_gwp lifetime_years embodied_factor
           = Inl OverflowError"
  by (simp add: calc_baseline_direct_py_def float_mul_int_def float_of_int_large [OF assms]
      py_steps)

lemma calc_baseline_indirect_py_zero:
  assumes "seer2 system = 0 \<or> hspf2 system = 0"
  shows "calc_baseline_indirect_py system lifetime_years grid_factor = Inl ZeroDivisionError"
  using assms
  by (auto simp add: calc_baseline_indirect_py_def float_mul_int_def float_of_int_hours py_steps)

lemma calc_baseline_indirect_py_in_range:
  assumes "seer2 system \<noteq> 0" and "hspf2 system \<noteq> 0"
    and "\<bar>lifetime_years\<bar> < 2 ^ 1024 - 2 ^ 970"
  shows "calc_baseline_indirect_py system lifetime_years grid_factor
           = calc_baseline_indirect system lifetime_years grid_factor"
  using assms(1,2)
  by (simp add: calc_baseline_indirect_py_def calc_baseline_indirect_eq float_mul_int_def
      float_of_int_hours float_of_int_small [OF assms(3)] py_steps)

lemma calc_baseline_indirect_py_overflow:
  assumes "seer2 system \<noteq> 0" and "hspf2 system \<noteq> 0"
    and "\<not> \<bar>lifetime_years\<bar> < 2 ^ 1024 - 2 ^ 970"
  shows "calc_baseline_indirect_py system lifetime_years grid_factor = Inl OverflowError"
  using assms(1,2)
  by (simp add: calc_baseline_indirect_py_def float_mul_int_def
      float_of_int_hours float_of_int_large [OF assms(3)] py_steps)


section \<open>The baseline of direct emissions\<close>


section \<open>The baseline of indirect emissions\<close>




section \<open>The correction factor of direct emissions\<close>

text \<open>
  Claim C3, first as the spec states its range. With at least 50 percent reclaimed, a
  volume of at most 6 cubic feet, both flags set and safety class 2L, all five
  discounts apply and \<open>build_direct_cf\<close> returns the product of 0.9, 0.97, 0.98, 0.95
  and 0.995, which is below 0.81 and so not in the range from 0.85 to 1.02.
\<close>

theorem build_direct_cf_range_counterexample:
  "build_direct_cf
       \<lparr>reclaimed_per_unit_pct = 50, unit_volume_cuft = 6,
        manufactured_in_usa = True, leak_detectors = True,
        refrigerant_safety_class = ''2L''\<rparr> < 0.81
   \<and> \<not> (0.85 \<le> build_direct_cf
       \<lparr>reclaimed_per_unit_pct = 50, unit_volume_cuft = 6,
        manufactured_in_usa = True, leak_detectors = True,
        refrigerant_safety_class = ''2L''\<rparr>
        \<and> build_direct_cf
       \<lparr>reclaimed_per_unit_pct = 50, unit_volume_cuft = 6,
        manufactured_in_usa = True, leak_detectors = True,
        refrigerant_safety_class = ''2L''\<rparr> \<le> 1.02)"
  by code_simp

text \<open>
  Claim C3, amended. For every \<open>DirectCFInputs\<close> record the value returned by
  \<open>build_direct_cf\<close> is at least 0.80 and at most 1.02. Both bounds leave a margin of
  more than 0.008 to the extreme products, far more than the rounding of five
  multiplications can move them.
\<close>

theorem build_direct_cf_range:
  "0.80 \<le> build_direct_cf cf \<and> build_direct_cf cf \<le> 1.02"
  by (simp add: build_direct_cf_def Let_def)

text \<open>
  Claim C4. The tiers of \<open>build_direct_cf\<close> are inclusive and the first matching branch
  wins. Compared with the same record at a non-adjusting value of the field (0 percent
  reclaimed, 50 cubic feet), a reclaimed percentage of at least 50 multiplies the result
  by 0.9 and by nothing else, one in [20, 50) by 0.95, one below 20 leaves it unchanged;
  a volume of at most 6 multiplies it by 0.97, one in (6, 10] by 0.99, a larger one
  leaves it unchanged. The result is never zero, so the factors are told apart.
\<close>

theorem build_direct_cf_tiers:
  "(50 \<le> reclaimed_per_unit_pct cf \<longrightarrow>
      build_direct_cf cf = 0.9 * build_direct_cf (cf\<lparr>reclaimed_per_unit_pct := 0\<rparr>))
   \<and> (20 \<le> reclaimed_per_unit_pct cf \<and> reclaimed_per_unit_pct cf < 50 \<longrightarrow>
      build_direct_cf cf = 0.95 * build_direct_cf (cf\<lparr>reclaimed_per_unit_pct := 0\<rparr>))
   \<and> (reclaimed_per_unit_pct cf < 20 \<longrightarrow>
      build_direct_cf cf = build_direct_cf (cf\<lparr>reclaimed_per_unit_pct := 0\<rparr>))
   \<and> (unit_volume_cuft cf \<le> 6 \<longrightarrow>
      build_direct_cf cf = 0.97 * build_direct_cf (cf\<lparr>unit_volume_cuft := 50\<rparr>))
   \<and> (6 < unit_volume_cuft cf \<and> unit_volume_cuft cf \<le> 10 \<longrightarrow>
      build_direct_cf cf = 0.99 * build_direct_cf (cf\<lparr>unit_volume_cuft := 50\<rparr>))
   \<and> (10 < unit_volume_cuft cf \<longrightarrow>
      build_direct_cf cf = build_direct_cf (cf\<lparr>unit_volume_cuft := 50\<rparr>))
   \<and> 0 < build_direct_cf cf"
  by (simp add: build_direct_cf_def Let_def)

text \<open>At exactly 50 percent and exactly 6 cubic feet, and at exactly 20 percent and
  exactly 10 cubic feet.\<close>

theorem build_direct_cf_tiers_witness:
  "(50::real) \<le> 50 \<and> (6::real) \<le> 6
   \<and> build_direct_cf 
       \<lparr>reclaimed_per_unit_pct = 50, unit_volume_cuft = 6,
        manufactured_in_usa = False, leak_detectors = False,
        refrigerant_safety_class = ''1''\<rparr> = 0.9 * build_direct_cf 
       \<lparr>reclaimed_per_unit_pct = 0, unit_volume_cuft = 6,
        manufactured_in_usa = False, leak_detectors = False,
        refrigerant_safety_class = ''1''\<rparr>
   \<and> build_direct_cf 
       \<lparr>reclaimed_per_unit_pct = 50, unit_volume_cuft = 6,
        manufactured_in_usa = False, leak_detectors = False,
        refrigerant_safety_class = ''1''\<rparr> = 0.97 * build_direct_cf 
       \<lparr>reclaimed_per_unit_pct = 50, unit_volume_cuft = 50,
        manufactured_in_usa = False, leak_detectors = False,
        refrigerant_safety_class = ''1''\<rparr>
   \<and> (20::real) \<le> 20 \<and> (20::real) < 50 \<and> (6::real) < 10 \<and> (10::real) \<le> 10
   \<and> build_direct_cf 
       \<lparr>reclaimed_per_unit_pct = 20, unit_volume_cuft = 10,
        manufactured_in_usa = False, leak_detectors = False,
        refrigerant_safety_class = ''1''\<rparr> = 0.95 * build_direct_cf 
       \<lparr>reclaimed_per_unit_pct = 0, unit_volume_cuft = 10,
        manufactured_in_usa = False, leak_detectors = False,
        refrigerant_safety_class = ''1''\<rparr>
   \<and> build_direct_cf 
       \<lparr>reclaimed_per_unit_pct = 20, unit_volume_cuft = 10,
        manufactured_in_usa = False, leak_detectors = False,
        refrigerant_safety_class = ''1''\<rparr> = 0.99 * build_direct_cf 
       \<lparr>reclaimed_per_unit_pct = 20, unit_volume_cuft = 50,
        manufactured_in_usa = False, leak_detectors = False,
        refrigerant_safety_class = ''1''\<rparr>"
  using
    build_direct_cf_tiers [of "
       \<lparr>reclaimed_per_unit_pct = 50, unit_volume_cuft = 6,
        manufactured_in_usa = False, leak_detectors = False,
        refrigerant_safety_class = ''1''\<rparr>"]
    build_direct_cf_tiers [of "
       \<lparr>reclaimed_per_unit_pct = 20, unit_volume_cuft = 10,
        manufactured_in_usa = False, leak_detectors = False,
        refrigerant_safety_class = ''1''\<rparr>"]
  by simp

section \<open>Intermediate quantities of the direct baseline\<close>





section \<open>String matching in the correction factors\<close>

text \<open>
  Claim C5. \<open>build_indirect_cf\<close> lowercases and trims the compressor type and then
  takes the first branch that matches. Write the compressor type as leading whitespace,
  a core \<open>t\<close> that neither starts nor ends with whitespace, and trailing whitespace, and
  let \<open>ctype\<close> be the lower-cased core. If \<open>ctype\<close> starts with "1" the multiplier is
  unchanged; otherwise if it contains "2" the factor 0.95 applies; otherwise if it
  contains "var" the factor 0.90 applies; any other string leaves it unchanged. The
  result is compared with \<open>rest\<close>, the result for the empty compressor type, which is
  the product of the two flag factors. In \<open>build_direct_cf\<close> the upper-cased core of the
  safety class decides: "2L" gives the factor 0.995, "3" the factor 1.01, and any other
  string the result of class "1". Read statement by statement, both builders return for
  every string and never raise.
\<close>

theorem first_match_wins:
  "(compressor_type cf = lead @ t @ trail
      \<and> (\<forall>c\<in>set lead. isspace c) \<and> (\<forall>c\<in>set trail. isspace c)
      \<and> (t = [] \<or> (\<not> isspace (hd t) \<and> \<not> isspace (last t))) \<longrightarrow>
    (let ctype = str_lower t;
         rest = build_indirect_cf (cf\<lparr>compressor_type := []\<rparr>)
     in (prefix ''1'' ctype \<longrightarrow> build_indirect_cf cf = rest)
      \<and> (\<not> prefix ''1'' ctype \<and> CHR ''2'' \<in> set ctype \<longrightarrow>
           build_indirect_cf cf = 0.95 * rest)
      \<and> (\<not> prefix ''1'' ctype \<and> CHR ''2'' \<notin> set ctype \<and> sublist ''var'' ctype \<longrightarrow>
           build_indirect_cf cf = 0.90 * rest)
      \<and> (\<not> prefix ''1'' ctype \<and> CHR ''2'' \<notin> set ctype \<and> \<not> sublist ''var'' ctype \<longrightarrow>
           build_indirect_cf cf = rest)
      \<and> rest = (if demand_flex cf then 0.97 else 1)
                 * (if connected_thermostat cf then 0.98 else 1)))
   \<and> (refrigerant_safety_class dcf = slead @ u @ strail
      \<and> (\<forall>c\<in>set slead. isspace c) \<and> (\<forall>c\<in>set strail. isspace c)
      \<and> (u = [] \<or> (\<not> isspace (hd u) \<and> \<not> isspace (last u))) \<longrightarrow>
    (let safety = str_upper u;
         base = build_direct_cf (dcf\<lparr>refrigerant_safety_class := ''1''\<rparr>)
     in (safety = ''2L'' \<longrightarrow> build_direct_cf dcf = 0.995 * base)
      \<and> (safety = ''3'' \<longrightarrow> build_direct_cf dcf = 1.01 * base)
      \<and> (safety \<noteq> ''2L'' \<and> safety \<noteq> ''3'' \<longrightarrow> build_direct_cf dcf = base)))
   \<and> build_indirect_cf_py cf = Inr (build_indirect_cf cf)
   \<and> build_direct_cf_py dcf = Inr (build_direct_cf dcf)"
proof -
  have a: "str_strip (str_lower (compressor_type cf)) = str_lower t"
    if "compressor_type cf = lead @ t @ trail" "\<forall>c\<in>set lead. isspace c" "\<forall>c\<in>set trail. isspace c"
       "t = [] \<or> (\<not> isspace (hd t) \<and> \<not> isspace (last t))"
    using str_strip_lower_decompose [OF that(2,3,4)] that(1) by simp
  have b: "str_strip (refrigerant_safety_class dcf) = u"
    if "refrigerant_safety_class dcf = slead @ u @ strail" "\<forall>c\<in>set slead. isspace c"
       "\<forall>c\<in>set strail. isspace c" "u = [] \<or> (\<not> isspace (hd u) \<and> \<not> isspace (last u))"
    using str_strip_decompose [OF that(2,3,4)] that(1) by simp
  have 1: "compressor_type cf = lead @ t @ trail
      \<and> (\<forall>c\<in>set lead. isspace c) \<and> (\<forall>c\<in>set trail. isspace c)
      \<and> (t = [] \<or> (\<not> isspace (hd t) \<and> \<not> isspace (last t))) \<longrightarrow>
    (let ctype = str_lower t;
         rest = build_indirect_cf (cf\<lparr>compressor_type := []\<rparr>)
     in (prefix ''1'' ctype \<longrightarrow> build_indirect_cf cf = rest)
      \<and> (\<not> prefix ''1'' ctype \<and> CHR ''2'' \<in> set ctype \<longrightarrow>
           build_indirect_cf cf = 0.95 * rest)
      \<and> (\<not> prefix ''1'' ctype \<and> CHR ''2'' \<notin> set ctype \<and> sublist ''var'' ctype \<longrightarrow>
           build_indirect_cf cf = 0.90 * rest)
      \<and> (\<not> prefix ''1'' ctype \<and> CHR ''2'' \<notin> set ctype \<and> \<not> sublist ''var'' ctype \<longrightarrow>
           build_indirect_cf cf = rest)
      \<and> rest = (if demand_flex cf then 0.97 else 1)
                 * (if connected_thermostat cf then 0.98 else 1))"
  proof (intro impI, elim conjE)
    assume h: "compressor_type cf = lead @ t @ trail" "\<forall>c\<in>set lead. isspace c"
      "\<forall>c\<in>set trail. isspace c" "t = [] \<or> (\<not> isspace (hd t) \<and> \<not> isspace (last t))"
    show "let ctype = str_lower t;
         rest = build_indirect_cf (cf\<lparr>compressor_type := []\<rparr>)
     in (prefix ''1'' ctype \<longrightarrow> build_indirect_cf cf = rest)
      \<and> (\<not> prefix ''1'' ctype \<and> CHR ''2'' \<in> set ctype \<longrightarrow>
           build_indirect_cf cf = 0.95 * rest)
      \<and> (\<not> prefix ''1'' ctype \<and> CHR ''2'' \<notin> set ctype \<and> sublist ''var'' ctype \<longrightarrow>
           build_indirect_cf cf = 0.90 * rest)
      \<and> (\<not> prefix ''1'' ctype \<and> CHR ''2'' \<notin> set ctype \<and> \<not> sublist ''var'' ctype \<longrightarrow>
           build_indirect_cf cf = rest)
      \<and> rest = (if demand_flex cf then 0.97 else 1)
                 * (if connected_thermostat cf then 0.98 else 1)"
      unfolding build_indirect_cf_def a [OF h]
      by (simp add: Let_def startswith_def sublist_single str_contains_sublist
          str_normalise_empty)
  qed
  have 2: "refrigerant_safety_class dcf = slead @ u @ strail
      \<and> (\<forall>c\<in>set slead. isspace c) \<and> (\<forall>c\<in>set strail. isspace c)
      \<and> (u = [] \<or> (\<not> isspace (hd u) \<and> \<not> isspace (last u))) \<longrightarrow>
    (let safety = str_upper u;
         base = build_direct_cf (dcf\<lparr>refrigerant_safety_class := ''1''\<rparr>)
     in (safety = ''2L'' \<longrightarrow> build_direct_cf dcf = 0.995 * base)
      \<and> (safety = ''3'' \<longrightarrow> build_direct_cf dcf = 1.01 * base)
      \<and> (safety \<noteq> ''2L'' \<and> safety \<noteq> ''3'' \<longrightarrow> build_direct_cf dcf = base))"
  proof (intro impI, elim conjE)
    assume h: "refrigerant_safety_class dcf = slead @ u @ strail" "\<forall>c\<in>set slead. isspace c"
      "\<forall>c\<in>set strail. isspace c" "u = [] \<or> (\<not> isspace (hd u) \<and> \<not> isspace (last u))"
    show "let safety = str_upper u;
         base = build_direct_cf (dcf\<lparr>refrigerant_safety_class := ''1''\<rparr>)
     in (safety = ''2L'' \<longrightarrow> build_direct_cf dcf = 0.995 * base)
      \<and> (safety = ''3'' \<longrightarrow> build_direct_cf dcf = 1.01 * base)
      \<and> (safety \<noteq> ''2L'' \<and> safety \<noteq> ''3'' \<longrightarrow> build_direct_cf dcf = base)"
      unfolding build_direct_cf_def b [OF h]
      by (simp add: Let_def str_normalise_class_1)
  qed
  from 1 2 show ?thesis
    by (simp only: build_indirect_cf_py_eq build_direct_cf_py_eq simp_thms)
qed

text \<open>A leading no-break space before "12" is trimmed and the string starts with "1";
  " 2-Stg VAR" with a trailing newline takes the 0.95 branch only; a tab before
  "VARIABLE " is trimmed and the lower-cased string takes the 0.90 branch; "scroll" is
  not recognised. The safety class "2l" between a no-break space, a space and a
  next-line character is class 2L; " 3" is class 3; "A2L" is not recognised.\<close>

theorem first_match_wins_witness:
  "build_indirect_cf \<lparr>compressor_type = CHR 0xA0 # ''12'', demand_flex = False,
                      connected_thermostat = False\<rparr> = 1
   \<and> build_indirect_cf \<lparr>compressor_type = '' 2-Stg VAR'' @ [CHR 0x0A], demand_flex = False,
                      connected_thermostat = False\<rparr> = 0.95
   \<and> build_indirect_cf \<lparr>compressor_type = CHR 0x09 # ''VARIABLE '', demand_flex = False,
                      connected_thermostat = False\<rparr> = 0.90
   \<and> build_indirect_cf \<lparr>compressor_type = ''scroll'', demand_flex = False,
                      connected_thermostat = False\<rparr> = 1
   \<and> build_direct_cf \<lparr>reclaimed_per_unit_pct = 0, unit_volume_cuft = 50,
                    manufactured_in_usa = False, leak_detectors = False,
                    refrigerant_safety_class = CHR 0xA0 # '' 2l'' @ [CHR 0x85]\<rparr> = 0.995
   \<and> build_direct_cf \<lparr>reclaimed_per_unit_pct = 0, unit_volume_cuft = 50,
                    manufactured_in_usa = False, leak_detectors = False,
                    refrigerant_safety_class = '' 3''\<rparr> = 1.01
   \<and> build_direct_cf \<lparr>reclaimed_per_unit_pct = 0, unit_volume_cuft = 50,
                    manufactured_in_usa = False, leak_detectors = False,
                    refrigerant_safety_class = ''A2L''\<rparr> = 1
   \<and> build_indirect_cf_py \<lparr>compressor_type = ''scroll'', demand_flex = False,
                      connected_thermostat = False\<rparr> = Inr 1
   \<and> build_direct_cf_py \<lparr>reclaimed_per_unit_pct = 0, unit_volume_cuft = 50,
                    manufactured_in_usa = False, leak_detectors = False,
                    refrigerant_safety_class = ''A2L''\<rparr> = Inr 1"
proof -
  have sp: "isspace (CHR 0xA0)" "isspace (CHR 0x85)" "isspace (CHR 0x09)" "isspace (CHR 0x0A)"
    "isspace (CHR '' '')" "\<not> isspace (CHR ''1'')" "\<not> isspace (CHR ''2'')" "\<not> isspace (CHR ''3'')"
    "\<not> isspace (CHR ''R'')" "\<not> isspace (CHR ''V'')" "\<not> isspace (CHR ''E'')"
    "\<not> isspace (CHR ''s'')" "\<not> isspace (CHR ''l'')" "\<not> isspace (CHR ''A'')"
    "\<not> isspace (CHR ''L'')"
    by (simp_all add: isspace_def)
  have lo: "str_lower ''12'' = ''12''" "str_lower ''2-Stg VAR'' = ''2-stg var''"
    "str_lower ''VARIABLE'' = ''variable''" "str_lower ''scroll'' = ''scroll''"
    by code_simp+
  have up: "str_upper ''2l'' = ''2L''" "str_upper ''3'' = ''3''" "str_upper ''A2L'' = ''A2L''"
    by code_simp+
  have su: "sublist ''var'' ''variable''" "\<not> sublist ''var'' ''scroll''"
    by code_simp+
  have base: "build_direct_cf \<lparr>reclaimed_per_unit_pct = 0, unit_volume_cuft = 50,
                    manufactured_in_usa = False, leak_detectors = False,
                    refrigerant_safety_class = ''1''\<rparr> = 1"
    by code_simp
  show ?thesis
    using
      first_match_wins [where cf = "\<lparr>compressor_type = CHR 0xA0 # ''12'', demand_flex = False,
                      connected_thermostat = False\<rparr>"
          and lead = "[CHR 0xA0]" and t = "''12''" and trail = "[]"
          and dcf = "\<lparr>reclaimed_per_unit_pct = 0, unit_volume_cuft = 50,
                    manufactured_in_usa = False, leak_detectors = False,
                    refrigerant_safety_class = CHR 0xA0 # '' 2l'' @ [CHR 0x85]\<rparr>"
          and slead = "[CHR 0xA0, CHR '' '']" and u = "''2l''" and strail = "[CHR 0x85]"]
      first_match_wins [where cf = "\<lparr>compressor_type = '' 2-Stg VAR'' @ [CHR 0x0A],
                      demand_flex = False, connected_thermostat = False\<rparr>"
          and lead = "'' ''" and t = "''2-Stg VAR''" and trail = "[CHR 0x0A]"
          and dcf = "\<lparr>reclaimed_per_unit_pct = 0, unit_volume_cuft = 50,
                    manufactured_in_usa = False, leak_detectors = False,
                    refrigerant_safety_class = '' 3''\<rparr>"
          and slead = "'' ''" and u = "''3''" and strail = "[]"]
      first_match_wins [where cf = "\<lparr>compressor_type = CHR 0x09 # ''VARIABLE '',
                      demand_flex = False, connected_thermostat = False\<rparr>"
          and lead = "[CHR 0x09]" and t = "''VARIABLE''" and trail = "'' ''"
          and dcf = "\<lparr>reclaimed_per_unit_pct = 0, unit_volume_cuft = 50,
                    manufactured_in_usa = False, leak_detectors = False,
                    refrigerant_safety_class = ''A2L''\<rparr>"
          and slead = "[]" and u = "''A2L''" and strail = "[]"]
      first_match_wins [where cf = "\<lparr>compressor_type = ''scroll'',
                      demand_flex = False, connected_thermostat = False\<rparr>"
          and lead = "[]" and t = "''scroll''" and trail = "[]"
          and dcf = "\<lparr>reclaimed_per_unit_pct = 0, unit_volume_cuft = 50,
                    manufactured_in_usa = False, leak_detectors = False,
                    refrigerant_safety_class = ''A2L''\<rparr>"
          and slead = "[]" and u = "''A2L''" and strail = "[]"]
    by (simp add: Let_def sp lo up su base)
qed

text \<open>
  Claim C9. At the non-adjusting inputs each builder returns its starting value:
  \<open>build_direct_cf\<close> at 0 percent reclaimed, 50 cubic feet, both flags false and safety
  class "1" returns 1.0, and \<open>build_indirect_cf\<close> at compressor type "1-stg" with both
  flags false returns 1.0.
\<close>

theorem identity_at_non_adjusting_inputs:
  "build_direct_cf 
       \<lparr>reclaimed_per_unit_pct = 0, unit_volume_cuft = 50,
        manufactured_in_usa = False, leak_detectors = False,
        refrigerant_safety_class = ''1''\<rparr> = 1.0
   \<and> build_indirect_cf 
       \<lparr>compressor_type = ''1-stg'', demand_flex = False,
        connected_thermostat = False\<rparr> = 1.0"
  by code_simp

section \<open>Totality, the division by zero and the conversion of the lifetime\<close>

text \<open>
  Claim C6, first as the spec states it. The end-to-end scenario has finite inputs and
  positive ratings; with a lifetime of \<open>10 ^ 400\<close> years, an int that no float can
  hold, both baseline functions raise \<^verbatim>\<open>OverflowError\<close> when they multiply a float by
  the lifetime.
\<close>

theorem core_functions_total_counterexample:
  "seer2 
       \<lparr>capacity_btuh = 36000, seer2 = 15, hspf2 = 8.5, refrigerant_charge_kg = 3,
        reclaimed_refrigerant_pct = 0, annual_leak_rate_pct = 4, eol_loss_pct = 85,
        material_weight_kg = 140\<rparr> \<noteq> 0
   \<and> hspf2 
       \<lparr>capacity_btuh = 36000, seer2 = 15, hspf2 = 8.5, refrigerant_charge_kg = 3,
        reclaimed_refrigerant_pct = 0, annual_leak_rate_pct = 4, eol_loss_pct = 85,
        material_weight_kg = 140\<rparr> \<noteq> 0
   \<and> calc_baseline_direct_py 
       \<lparr>capacity_btuh = 36000, seer2 = 15, hspf2 = 8.5, refrigerant_charge_kg = 3,
        reclaimed_refrigerant_pct = 0, annual_leak_rate_pct = 4, eol_loss_pct = 85,
        material_weight_kg = 140\<rparr> 675 (10 ^ 400) 5 = Inl OverflowError
   \<and> calc_baseline_indirect_py 
       \<lparr>capacity_btuh = 36000, seer2 = 15, hspf2 = 8.5, refrigerant_charge_kg = 3,
        reclaimed_refrigerant_pct = 0, annual_leak_rate_pct = 4, eol_loss_pct = 85,
        material_weight_kg = 140\<rparr> (10 ^ 400) 0.38 = Inl OverflowError"
proof -
  have big: "\<not> \<bar>10 ^ 400 :: int\<bar> < 2 ^ 1024 - 2 ^ 970"
    by simp
  have d: "calc_baseline_direct_py
       \<lparr>capacity_btuh = 36000, seer2 = 15, hspf2 = 8.5, refrigerant_charge_kg = 3,
        reclaimed_refrigerant_pct = 0, annual_leak_rate_pct = 4, eol_loss_pct = 85,
        material_weight_kg = 140\<rparr> 675 (10 ^ 400) 5 = Inl OverflowError"
    by (rule calc_baseline_direct_py_overflow [OF big])
  have i: "calc_baseline_indirect_py
       \<lparr>capacity_btuh = 36000, seer2 = 15, hspf2 = 8.5, refrigerant_charge_kg = 3,
        reclaimed_refrigerant_pct = 0, annual_leak_rate_pct = 4, eol_loss_pct = 85,
        material_weight_kg = 140\<rparr> (10 ^ 400) 0.38 = Inl OverflowError"
    by (rule calc_baseline_indirect_py_overflow [OF _ _ big]) simp_all
  from d i show ?thesis
    by simp
qed

text \<open>
  Claim C6, amended. The four functions return for float inputs with non-zero \<open>seer2\<close>
  and \<open>hspf2\<close> and an int lifetime that converts to a float, that is one of magnitude
  below \<open>2 ^ 1024 - 2 ^ 970\<close>; for a larger lifetime the two baseline functions raise
  \<^verbatim>\<open>OverflowError\<close>. \<open>calc_baseline_indirect\<close> makes no check of its own: if \<open>seer2\<close>
  or \<open>hspf2\<close> is zero its division raises \<^verbatim>\<open>ZeroDivisionError\<close>, whatever the
  lifetime, and under the positivity precondition it does not. The two builders return
  for every input.
\<close>

theorem core_functions_total:
  "(seer2 system \<noteq> 0 \<and> hspf2 system \<noteq> 0 \<and> \<bar>lifetime_years\<bar> < 2 ^ 1024 - 2 ^ 970 \<longrightarrow>
      (\<exists>r. calc_baseline_indirect_py system lifetime_years grid_factor = Inr r))
   \<and> (seer2 system = 0 \<or> hspf2 system = 0 \<longrightarrow>
      calc_baseline_indirect_py system lifetime_years grid_factor = Inl ZeroDivisionError)
   \<and> (0 < seer2 system \<and> 0 < hspf2 system \<longrightarrow>
      calc_baseline_indirect_py system lifetime_years grid_factor \<noteq> Inl ZeroDivisionError)
   \<and> (\<bar>lifetime_years\<bar> < 2 ^ 1024 - 2 ^ 970 \<longrightarrow>
      (\<exists>r. calc_baseline_direct_py system refrigerant_gwp lifetime_years embodied_factor
             = Inr r))
   \<and> (\<not> \<bar>lifetime_years\<bar> < 2 ^ 1024 - 2 ^ 970 \<longrightarrow>
      calc_baseline_direct_py system refrigerant_gwp lifetime_years embodied_factor
        = Inl OverflowError
      \<and> (seer2 system \<noteq> 0 \<and> hspf2 system \<noteq> 0 \<longrightarrow>
           calc_baseline_indirect_py system lifetime_years grid_factor = Inl OverflowError))
   \<and> (\<exists>v. build_direct_cf_py dcf = Inr v)
   \<and> (\<exists>v. build_indirect_cf_py icf = Inr v)"
proof -
  have 1: "\<exists>r. calc_baseline_indirect_py system lifetime_years grid_factor = Inr r"
    if "seer2 system \<noteq> 0" "hspf2 system \<noteq> 0" "\<bar>lifetime_years\<bar> < 2 ^ 1024 - 2 ^ 970"
    using that by (simp add: calc_baseline_indirect_py_in_range calc_baseline_indirect_eq)
  have 2: "calc_baseline_indirect_py system lifetime_years grid_factor \<noteq> Inl ZeroDivisionError"
    if "0 < seer2 system" "0 < hspf2 system"
  proof (cases "\<bar>lifetime_years\<bar> < 2 ^ 1024 - 2 ^ 970")
    case True
    with that show ?thesis
      by (simp add: calc_baseline_indirect_py_in_range calc_baseline_indirect_eq)
  next
    case False
    with that show ?thesis
      by (simp add: calc_baseline_indirect_py_overflow)
  qed
  have 3: "\<exists>r. calc_baseline_direct_py system refrigerant_gwp lifetime_years embodied_factor
             = Inr r"
    if "\<bar>lifetime_years\<bar> < 2 ^ 1024 - 2 ^ 970"
    using that
    by (simp add: calc_baseline_direct_py_in_range calc_baseline_direct_def
        calc_baseline_direct_locals_eq py_bind_Inr)
  show ?thesis
    using 1 2 3
    by (simp add: calc_baseline_indirect_py_zero calc_baseline_direct_py_overflow
        calc_baseline_indirect_py_overflow build_direct_cf_py_eq build_indirect_cf_py_eq)
qed

text \<open>The end-to-end scenario returns with a lifetime of 15 years; the same system with
  \<open>seer2 = 0\<close>, and with \<open>hspf2 = 0\<close>, raises \<^verbatim>\<open>ZeroDivisionError\<close>; with a lifetime of
  \<open>2 ^ 1024\<close> years it raises \<^verbatim>\<open>OverflowError\<close>.\<close>

theorem core_functions_total_witness:
  "(15::real) \<noteq> 0 \<and> (8.5::real) \<noteq> 0 \<and> (0::real) < 15 \<and> (0::real) < 8.5
   \<and> \<bar>15 :: int\<bar> < 2 ^ 1024 - 2 ^ 970 \<and> \<not> \<bar>2 ^ 1024 :: int\<bar> < 2 ^ 1024 - 2 ^ 970
   \<and> (\<exists>r. calc_baseline_indirect_py 
       \<lparr>capacity_btuh = 36000, seer2 = 15, hspf2 = 8.5, refrigerant_charge_kg = 3,
        reclaimed_refrigerant_pct = 0, annual_leak_rate_pct = 4, eol_loss_pct = 85,
        material_weight_kg = 140\<rparr> 15 0.38 = Inr r)
   \<and> calc_baseline_indirect_py 
       \<lparr>capacity_btuh = 36000, seer2 = 15, hspf2 = 8.5, refrigerant_charge_kg = 3,
        reclaimed_refrigerant_pct = 0, annual_leak_rate_pct = 4, eol_loss_pct = 85,
        material_weight_kg = 140\<rparr> 15 0.38 \<noteq> Inl ZeroDivisionError
   \<and> (\<exists>r. calc_baseline_direct_py 
       \<lparr>capacity_btuh = 36000, seer2 = 15, hspf2 = 8.5, refrigerant_charge_kg = 3,
        reclaimed_refrigerant_pct = 0, annual_leak_rate_pct = 4, eol_loss_pct = 85,
        material_weight_kg = 140\<rparr> 675 15 5 = Inr r)
   \<and> calc_baseline_indirect_py (
       \<lparr>capacity_btuh = 36000, seer2 = 15, hspf2 = 8.5, refrigerant_charge_kg = 3,
        reclaimed_refrigerant_pct = 0, annual_leak_rate_pct = 4, eol_loss_pct = 85,
        material_weight_kg = 140\<rparr>\<lparr>seer2 := 0\<rparr>) 15 0.38 = Inl ZeroDivisionError
   \<and> calc_baseline_indirect_py (
       \<lparr>capacity_btuh = 36000, seer2 = 15, hspf2 = 8.5, refrigerant_charge_kg = 3,
        reclaimed_refrigerant_pct = 0, annual_leak_rate_pct = 4, eol_loss_pct = 85,
        material_weight_kg = 140\<rparr>\<lparr>hspf2 := 0\<rparr>) 15 0.38 = Inl ZeroDivisionError
   \<and> calc_baseline_direct_py 
       \<lparr>capacity_btuh = 36000, seer2 = 15, hspf2 = 8.5, refrigerant_charge_kg = 3,
        reclaimed_refrigerant_pct = 0, annual_leak_rate_pct = 4, eol_loss_pct = 85,
        material_weight_kg = 140\<rparr> 675 (2 ^ 1024) 5 = Inl OverflowError
   \<and> calc_baseline_indirect_py 
       \<lparr>capacity_btuh = 36000, seer2 = 15, hspf2 = 8.5, refrigerant_charge_kg = 3,
        reclaimed_refrigerant_pct = 0, annual_leak_rate_pct = 4, eol_loss_pct = 85,
        material_weight_kg = 140\<rparr> (2 ^ 1024) 0.38 = Inl OverflowError"
  using
    core_functions_total [of "
       \<lparr>capacity_btuh = 36000, seer2 = 15, hspf2 = 8.5, refrigerant_charge_kg = 3,
        reclaimed_refrigerant_pct = 0, annual_leak_rate_pct = 4, eol_loss_pct = 85,
        material_weight_kg = 140\<rparr>" 15 "0.38" 675 5]
    core_functions_total [of "
       \<lparr>capacity_btuh = 36000, seer2 = 15, hspf2 = 8.5, refrigerant_charge_kg = 3,
        reclaimed_refrigerant_pct = 0, annual_leak_rate_pct = 4, eol_loss_pct = 85,
        material_weight_kg = 140\<rparr>\<lparr>seer2 := 0\<rparr>" 15 "0.38"]
    core_functions_total [of "
       \<lparr>capacity_btuh = 36000, seer2 = 15, hspf2 = 8.5, refrigerant_charge_kg = 3,
        reclaimed_refrigerant_pct = 0, annual_leak_rate_pct = 4, eol_loss_pct = 85,
        material_weight_kg = 140\<rparr>\<lparr>hspf2 := 0\<rparr>" 15 "0.38"]
    core_functions_total [of "
       \<lparr>capacity_btuh = 36000, seer2 = 15, hspf2 = 8.5, refrigerant_charge_kg = 3,
        reclaimed_refrigerant_pct = 0, annual_leak_rate_pct = 4, eol_loss_pct = 85,
        material_weight_kg = 140\<rparr>" "2 ^ 1024" "0.38" 675 5]
  by simp

end
